theory Spec2Isabelle
  imports
    Complex_Main
    "HOL-Library.List_Lexorder"
    "HOL-Library.Char_ord"
    "HOL-Library.Product_Lexorder"
    "HOL-Library.Option_ord"
    "HOL-Library.AList"
    "HOL-Library.Sublist"
    "HOL-Library.Multiset"
begin

section \<open>Python values and exceptions\<close>

text \<open>
  The two scripts \<^verbatim>\<open>fetch.py\<close> and \<^verbatim>\<open>draw.py\<close> are straight-line programs.
  An exception that no handler catches ends the process with a traceback; the model
  returns it as a value. What \<^verbatim>\<open>print\<close> writes is not modelled: a run is
  described by how it ends, by the table it leaves behind and by whether it closed its
  database connection.
\<close>

datatype exn = IndexError | KeyError | TypeError | ValueError | DbError

text \<open>
  What \<^verbatim>\<open>json.loads\<close> returns: \<^verbatim>\<open>None\<close>, a bool, a number, a str, a list or a
  dict with str keys. A dict is an association list in insertion order.
\<close>

datatype jval =
    JNull
  | JBool bool
  | JNum rat
  | JStr string
  | JArr "jval list"
  | JObj "(string \<times> jval) list"

section \<open>The libraries\<close>

text \<open>
  The scripts call three libraries: the JSON parser, \<^verbatim>\<open>datetime.strptime\<close> with the
  format \<^verbatim>\<open>%Y-%m-%dT%H:%M:%S%z\<close>, and the database driver with its server. What they
  answer is a parameter of the model; \<open>None\<close> is a call that raises.
  \<^item> \<open>loads\<close> is \<^verbatim>\<open>json.loads\<close>.
  \<^item> \<open>strptime\<close> reads a timestamp from a string; \<open>'t\<close> is the type of timestamps,
    ordered as timezone-aware \<^verbatim>\<open>datetime\<close> objects are.
  \<^item> \<open>where_satellite v\<close> is the test that \<^verbatim>\<open>satellite = %s\<close> makes on the integer
    column when the Python value \<open>v\<close> is the parameter, \<open>where_energy v\<close> the test
    that \<^verbatim>\<open>energy = %s\<close> makes on the varchar column.
  \<^item> \<open>into_varchar v\<close>, \<open>into_int v\<close> and \<open>into_real v\<close> are what an insert
    stores in a column of that type for the parameter \<open>v\<close>; \<open>'r\<close> is the type of
    the values of a \<^verbatim>\<open>real\<close> column, and \<open>Some None\<close> is \<^verbatim>\<open>NULL\<close>.
\<close>

record ('t, 'r) lib =
  loads :: "string \<Rightarrow> jval option"
  strptime :: "string \<Rightarrow> 't option"
  where_satellite :: "jval \<Rightarrow> (int \<Rightarrow> bool) option"
  where_energy :: "jval \<Rightarrow> (string \<Rightarrow> bool) option"
  into_varchar :: "jval \<Rightarrow> string option"
  into_int :: "jval \<Rightarrow> int option"
  into_real :: "jval \<Rightarrow> 'r option option"

section \<open>Download and repair (fetch.py, lines 103-120)\<close>

text \<open>\<^verbatim>\<open>text.endswith(pat)\<close>.\<close>

definition endswith :: "string \<Rightarrow> string \<Rightarrow> bool" where
  "endswith text pat =
     (length pat \<le> length text \<and> drop (length text - length pat) text = pat)"

text \<open>
  The \<^verbatim>\<open>if/elif\<close> chain of lines 109-116. \<^verbatim>\<open>text[:-4]\<close> and \<^verbatim>\<open>text[:-1]\<close> are
  only reached when the text has at least that many characters.
\<close>

definition repair :: "string \<Rightarrow> string" where
  "repair text =
     (if endswith text '', {\"'' then take (length text - 4) text @ '']''
      else if endswith text ''m\"'' then text @ ''}]''
      else if endswith text ''\"},'' then take (length text - 1) text @ '']''
      else if endswith text ''\"}'' then text @ '']''
      else text)"

text \<open>
  The loop over the URLs. A response is \<open>Some text\<close>, or \<open>None\<close> when
  \<^verbatim>\<open>requests.get\<close> raised: then \<^verbatim>\<open>text\<close> keeps its initial \<^verbatim>\<open>None\<close>.
\<close>

definition download :: "string option list \<Rightarrow> string option list" where
  "download responses = map (map_option repair) responses"

section \<open>Usable downloads (lines 122-130) and parsing (lines 132-141)\<close>

definition any_text :: "string option list \<Rightarrow> bool" where
  "any_text texts = list_ex (\<lambda>t. t \<noteq> None \<and> t \<noteq> Some []) texts"

text \<open>
  A text that fails to parse leaves \<^verbatim>\<open>json = None\<close>, which is also what the JSON
  text \<^verbatim>\<open>null\<close> parses to.
\<close>

definition parse :: "('t, 'r) lib \<Rightarrow> string option \<Rightarrow> jval" where
  "parse lib text =
     (case text of
        None \<Rightarrow> JNull
      | Some s \<Rightarrow> (case loads lib s of None \<Rightarrow> JNull | Some j \<Rightarrow> j))"

definition parse_all :: "('t, 'r) lib \<Rightarrow> string option list \<Rightarrow> jval list" where
  "parse_all lib texts = map (parse lib) texts"

section \<open>Validation (lines 143-154)\<close>

text \<open>\<^verbatim>\<open>jsons[i][0]\<close>: the first element of a list, the first character of a str, the
  key \<^verbatim>\<open>0\<close> of a dict (never present: the keys are strs).\<close>

fun subscript0 :: "jval \<Rightarrow> exn + jval" where
  "subscript0 (JArr []) = Inl IndexError"
| "subscript0 (JArr (x # xs)) = Inr x"
| "subscript0 (JStr []) = Inl IndexError"
| "subscript0 (JStr (c # cs)) = Inr (JStr [c])"
| "subscript0 (JObj d) = Inl KeyError"
| "subscript0 _ = Inl TypeError"

text \<open>\<^verbatim>\<open>'time_tag' in x\<close>: a key of a dict, an element of a list, a substring of a
  str.\<close>

fun contains_time_tag :: "jval \<Rightarrow> exn + bool" where
  "contains_time_tag (JObj d) = Inr (''time_tag'' \<in> set (map fst d))"
| "contains_time_tag (JArr xs) = Inr (JStr ''time_tag'' \<in> set xs)"
| "contains_time_tag (JStr s) = Inr (sublist ''time_tag'' s)"
| "contains_time_tag _ = Inl TypeError"

text \<open>The loop of lines 144-150, with the flag \<^verbatim>\<open>ok\<close> as accumulator.\<close>

fun validate :: "jval list \<Rightarrow> bool \<Rightarrow> exn + bool" where
  "validate [] ok = Inr ok"
| "validate (j # js) ok =
     (if j = JNull then validate js ok
      else (case subscript0 j of
              Inl e \<Rightarrow> Inl e
            | Inr x \<Rightarrow>
                (case contains_time_tag x of
                   Inl e \<Rightarrow> Inl e
                 | Inr b \<Rightarrow> if \<not> b then validate js ok else validate js True)))"

section \<open>Aggregation (lines 156-165)\<close>

text \<open>\<^verbatim>\<open>item[key]\<close> with a str key: only a dict takes one.\<close>

fun getitem :: "jval \<Rightarrow> string \<Rightarrow> exn + jval" where
  "getitem (JObj d) k = (case map_of d k of None \<Rightarrow> Inl KeyError | Some v \<Rightarrow> Inr v)"
| "getitem _ k = Inl TypeError"

text \<open>Lists and dicts cannot be members of a set.\<close>

fun hashable :: "jval \<Rightarrow> bool" where
  "hashable (JArr xs) = False"
| "hashable (JObj d) = False"
| "hashable _ = True"

text \<open>
  Members of a set and keys of a dict are told apart by \<^verbatim>\<open>==\<close>, for which
  \<^verbatim>\<open>True\<close> is 1 and \<^verbatim>\<open>False\<close> is 0. \<open>hash_key\<close> maps equal values to one value.
\<close>

fun hash_key :: "jval \<Rightarrow> jval" where
  "hash_key (JBool b) = JNum (if b then 1 else 0)"
| "hash_key v = v"

text \<open>\<^verbatim>\<open>s.add(v)\<close>: the set keeps the member it has when an equal one is added.\<close>

definition set_add :: "jval \<Rightarrow> jval list \<Rightarrow> jval list" where
  "set_add v s = (if hash_key v \<in> set (map hash_key s) then s else v # s)"

text \<open>\<^verbatim>\<open>for item in json\<close>: the elements of a list, the keys of a dict, the characters
  of a str; nothing else iterates.\<close>

fun iterate :: "jval \<Rightarrow> exn + jval list" where
  "iterate (JArr xs) = Inr xs"
| "iterate (JObj d) = Inr (map (\<lambda>kv. JStr (fst kv)) d)"
| "iterate (JStr s) = Inr (map (\<lambda>c. JStr [c]) s)"
| "iterate _ = Inl TypeError"

type_synonym dict = "(string \<times> jval) list"

text \<open>The three accumulators; a set is the list of its members.\<close>

record agg =
  data :: "dict list"
  satellites :: "jval list"
  energies :: "jval list"

text \<open>The body of the inner loop, lines 161-165.\<close>

definition add_item :: "jval \<Rightarrow> agg \<Rightarrow> exn + agg" where
  "add_item item a =
     (case getitem item ''satellite'' of
        Inl e \<Rightarrow> Inl e
      | Inr sat \<Rightarrow>
          if \<not> hashable sat then Inl TypeError
          else (case getitem item ''energy'' of
                  Inl e \<Rightarrow> Inl e
                | Inr nrj \<Rightarrow>
                    if \<not> hashable nrj then Inl TypeError
                    else (case getitem item ''flux'' of
                            Inl e \<Rightarrow> Inl e
                          | Inr flux \<Rightarrow>
                              (case item of
                                 JObj d \<Rightarrow>
                                   Inr \<lparr>data = data a @
                                          [AList.delete ''flux''
                                             (AList.update ''corrected_flux'' flux d)],
                                        satellites = set_add sat (satellites a),
                                        energies = set_add nrj (energies a)\<rparr>
                               | _ \<Rightarrow> Inl TypeError))))"

fun add_items :: "jval list \<Rightarrow> agg \<Rightarrow> exn + agg" where
  "add_items [] a = Inr a"
| "add_items (item # items) a =
     (case add_item item a of Inl e \<Rightarrow> Inl e | Inr a' \<Rightarrow> add_items items a')"

text \<open>The outer loop of line 159 runs over every entry of \<^verbatim>\<open>jsons\<close>, also over
  those that the validation loop reported.\<close>

fun aggregate :: "jval list \<Rightarrow> agg \<Rightarrow> exn + agg" where
  "aggregate [] a = Inr a"
| "aggregate (json # jsons) a =
     (case iterate json of
        Inl e \<Rightarrow> Inl e
      | Inr items \<Rightarrow>
          (case add_items items a of Inl e \<Rightarrow> Inl e | Inr a' \<Rightarrow> aggregate jsons a'))"

definition no_data :: agg where
  "no_data = \<lparr>data = [], satellites = [], energies = []\<rparr>"

section \<open>The table\<close>

text \<open>
  The table of line 171: \<^verbatim>\<open>datetime varchar, satellite int, energy varchar\<close> and
  three \<^verbatim>\<open>real\<close> columns that may hold \<^verbatim>\<open>NULL\<close>. The rows are kept in the order
  of their insertion; no result below depends on that order.
\<close>

record 'r row =
  datetime :: string
  satellite :: int
  energy :: string
  corrected_flux :: "'r option"
  observed_flux :: "'r option"
  electron_correction :: "'r option"

text \<open>The primary key \<^verbatim>\<open>(datetime, satellite, energy)\<close>.\<close>

definition key_of :: "'r row \<Rightarrow> string \<times> int \<times> string" where
  "key_of r = (datetime r, satellite r, energy r)"

text \<open>
  \<^verbatim>\<open>select max(datetime) from T where satellite = %s and energy = %s\<close>: the
  greatest string of the column among the rows that pass the two tests, \<open>None\<close> when
  no row does. Strings are compared character by character.
\<close>

definition select_max_datetime :: "'r row list \<Rightarrow> (int \<Rightarrow> bool) \<Rightarrow> (string \<Rightarrow> bool)
    \<Rightarrow> string option" where
  "select_max_datetime tbl sat_test nrj_test =
     (case map datetime (filter (\<lambda>r. sat_test (satellite r) \<and> nrj_test (energy r)) tbl) of
        [] \<Rightarrow> None
      | x # xs \<Rightarrow> Some (fold max xs x))"

text \<open>\<^verbatim>\<open>insert ... on conflict (datetime, satellite, energy) do nothing\<close>.\<close>

definition insert_row :: "'r row \<Rightarrow> 'r row list \<Rightarrow> 'r row list" where
  "insert_row r tbl = (if key_of r \<in> set (map key_of tbl) then tbl else tbl @ [r])"

section \<open>Watermarks and the filter (lines 176-192)\<close>

definition sentinel :: string where
  "sentinel = ''1900-01-01T00:00:00Z''"

text \<open>\<^verbatim>\<open>datetime.strptime(s, '%Y-%m-%dT%H:%M:%S%z')\<close>.\<close>

definition read_time :: "('t, 'r) lib \<Rightarrow> string \<Rightarrow> exn + 't" where
  "read_time lib s = (case strptime lib s of None \<Rightarrow> Inl ValueError | Some t \<Rightarrow> Inr t)"

text \<open>Lines 182-187 for one satellite and one energy: the query, then the reading of
  its result or of the sentinel. \<open>DbError\<close> stands for whatever the driver or the
  server raises.\<close>

definition latest_of :: "('t, 'r) lib \<Rightarrow> 'r row list \<Rightarrow> jval \<Rightarrow> jval \<Rightarrow> exn + 't" where
  "latest_of lib tbl sat nrj =
     (case where_satellite lib sat of
        None \<Rightarrow> Inl DbError
      | Some sat_test \<Rightarrow>
          (case where_energy lib nrj of
             None \<Rightarrow> Inl DbError
           | Some nrj_test \<Rightarrow>
               (case select_max_datetime tbl sat_test nrj_test of
                  None \<Rightarrow> read_time lib sentinel
                | Some result \<Rightarrow> read_time lib result)))"

text \<open>The nested dict \<^verbatim>\<open>latest_data\<close>, on the keys as \<^verbatim>\<open>==\<close> tells them apart.\<close>

type_synonym 't latest = "jval \<rightharpoonup> (jval \<rightharpoonup> 't)"

text \<open>The inner loop of line 181 fills the dict of one satellite.\<close>

fun latest_energies :: "('t, 'r) lib \<Rightarrow> 'r row list \<Rightarrow> jval \<Rightarrow> jval list \<Rightarrow> (jval \<rightharpoonup> 't)
    \<Rightarrow> exn + (jval \<rightharpoonup> 't)" where
  "latest_energies lib tbl sat [] m = Inr m"
| "latest_energies lib tbl sat (nrj # nrjs) m =
     (case latest_of lib tbl sat nrj of
        Inl e \<Rightarrow> Inl e
      | Inr t \<Rightarrow> latest_energies lib tbl sat nrjs (m(hash_key nrj \<mapsto> t)))"

text \<open>The outer loop of line 178.\<close>

fun latest_data :: "('t, 'r) lib \<Rightarrow> 'r row list \<Rightarrow> jval list \<Rightarrow> jval list \<Rightarrow> 't latest
    \<Rightarrow> exn + 't latest" where
  "latest_data lib tbl [] nrjs l = Inr l"
| "latest_data lib tbl (sat # sats) nrjs l =
     (case latest_energies lib tbl sat nrjs
             (case l (hash_key sat) of None \<Rightarrow> Map.empty | Some m \<Rightarrow> m) of
        Inl e \<Rightarrow> Inl e
      | Inr m \<Rightarrow> latest_data lib tbl sats nrjs (l(hash_key sat \<mapsto> m)))"

text \<open>\<^verbatim>\<open>datetime.strptime(d['time_tag'], ...)\<close>: the key may be missing, the value
  may be no str.\<close>

definition time_of :: "('t, 'r) lib \<Rightarrow> dict \<Rightarrow> exn + 't" where
  "time_of lib d =
     (case map_of d ''time_tag'' of
        None \<Rightarrow> Inl KeyError
      | Some (JStr s) \<Rightarrow> read_time lib s
      | Some _ \<Rightarrow> Inl TypeError)"

text \<open>\<^verbatim>\<open>latest_data[d['satellite']][d['energy']]\<close>.\<close>

definition watermark_of :: "'t latest \<Rightarrow> dict \<Rightarrow> exn + 't" where
  "watermark_of l d =
     (case map_of d ''satellite'' of
        None \<Rightarrow> Inl KeyError
      | Some sat \<Rightarrow>
          (case l (hash_key sat) of
             None \<Rightarrow> Inl KeyError
           | Some m \<Rightarrow>
               (case map_of d ''energy'' of
                  None \<Rightarrow> Inl KeyError
                | Some nrj \<Rightarrow>
                    (case m (hash_key nrj) of None \<Rightarrow> Inl KeyError | Some w \<Rightarrow> Inr w))))"

text \<open>The loop of lines 190-192.\<close>

fun new_data :: "('t::linorder, 'r) lib \<Rightarrow> 't latest \<Rightarrow> dict list \<Rightarrow> exn + dict list" where
  "new_data lib l [] = Inr []"
| "new_data lib l (d # ds) =
     (case time_of lib d of
        Inl e \<Rightarrow> Inl e
      | Inr t \<Rightarrow>
          (case watermark_of l d of
             Inl e \<Rightarrow> Inl e
           | Inr w \<Rightarrow>
               (case new_data lib l ds of
                  Inl e \<Rightarrow> Inl e
                | Inr nd \<Rightarrow> Inr (if t > w then d # nd else nd))))"

section \<open>Insertion (lines 194-208)\<close>

text \<open>The six parameters of the insert statement of line 203: first the dict is
  read, then the statement runs and stores each parameter in its column.\<close>

definition lookup :: "dict \<Rightarrow> string \<Rightarrow> exn + jval" where
  "lookup d k = (case map_of d k of None \<Rightarrow> Inl KeyError | Some v \<Rightarrow> Inr v)"

definition row_of :: "('t, 'r) lib \<Rightarrow> dict \<Rightarrow> exn + 'r row" where
  "row_of lib d =
     (case (lookup d ''time_tag'', lookup d ''satellite'', lookup d ''energy'',
            lookup d ''corrected_flux'', lookup d ''observed_flux'',
            lookup d ''electron_correction'') of
        (Inr t, Inr s, Inr n, Inr c, Inr ob, Inr el) \<Rightarrow>
          (case (into_varchar lib t, into_int lib s, into_varchar lib n,
                 into_real lib c, into_real lib ob, into_real lib el) of
             (Some t', Some s', Some n', Some c', Some ob', Some el') \<Rightarrow>
               Inr \<lparr>datetime = t', satellite = s', energy = n', corrected_flux = c',
                    observed_flux = ob', electron_correction = el'\<rparr>
           | _ \<Rightarrow> Inl DbError)
      | _ \<Rightarrow> Inl KeyError)"

text \<open>The loop of lines 202-204 with its counter. The inserts belong to one
  transaction: an exception before the commit of line 205 leaves the table as it was,
  which is why the caller keeps the old table on \<open>Inl\<close>.\<close>

fun insert_all :: "('t, 'r) lib \<Rightarrow> dict list \<Rightarrow> 'r row list \<Rightarrow> nat
    \<Rightarrow> exn + ('r row list \<times> nat)" where
  "insert_all lib [] tbl inserted = Inr (tbl, inserted)"
| "insert_all lib (d # ds) tbl inserted =
     (case row_of lib d of
        Inl e \<Rightarrow> Inl e
      | Inr r \<Rightarrow> insert_all lib ds (insert_row r tbl) (inserted + 1))"

section \<open>The fetcher\<close>

text \<open>
  How a run ends: it reaches its last line, it calls \<^verbatim>\<open>exit\<close> with a status
  (\<^verbatim>\<open>exit()\<close> is status 0), or an exception escapes.
\<close>

datatype outcome = Finished | Exited nat | Uncaught exn

text \<open>
  What the program finds around it: whether the password variable is set, whether
  \<^verbatim>\<open>psycopg2.connect\<close> succeeds, and whether \<^verbatim>\<open>lock table ... nowait\<close> gets the
  lock.
\<close>

record env =
  password_set :: bool
  db_reachable :: bool
  lock_free :: bool

text \<open>
  What a run leaves: the table, the counter that the last line prints, whether a
  connection was opened and whether \<^verbatim>\<open>connection.close()\<close> was called.
\<close>

record 'r run =
  outcome :: outcome
  table :: "'r row list"
  inserted :: nat
  connection_acquired :: bool
  connection_closed :: bool

definition stop :: "outcome \<Rightarrow> 'r row list \<Rightarrow> bool \<Rightarrow> 'r run" where
  "stop out tbl acquired =
     \<lparr>outcome = out, table = tbl, inserted = 0,
      connection_acquired = acquired, connection_closed = False\<rparr>"

definition fetch :: "('t::linorder, 'r) lib \<Rightarrow> env \<Rightarrow> string option list \<Rightarrow> 'r row list
    \<Rightarrow> 'r run" where
  "fetch lib env responses tbl =
     (if \<not> password_set env then stop (Exited 1) tbl False
      else if \<not> db_reachable env then stop (Exited 1) tbl False
      else
        let texts = download responses in
        if \<not> any_text texts then stop (Exited 0) tbl True
        else
          let jsons = parse_all lib texts in
          (case validate jsons False of
             Inl e \<Rightarrow> stop (Uncaught e) tbl True
           | Inr ok \<Rightarrow>
               if \<not> ok then stop (Exited 1) tbl True
               else
                 (case aggregate jsons no_data of
                    Inl e \<Rightarrow> stop (Uncaught e) tbl True
                  | Inr a \<Rightarrow>
                      (case latest_data lib tbl (satellites a) (energies a) Map.empty of
                         Inl e \<Rightarrow> stop (Uncaught e) tbl True
                       | Inr l \<Rightarrow>
                           (case new_data lib l (data a) of
                              Inl e \<Rightarrow> stop (Uncaught e) tbl True
                            | Inr nd \<Rightarrow>
                                if \<not> lock_free env then stop (Exited 0) tbl True
                                else
                                  (case insert_all lib nd tbl 0 of
                                     Inl e \<Rightarrow> stop (Uncaught e) tbl True
                                   | Inr (tbl', n) \<Rightarrow>
                                       \<lparr>outcome = Finished, table = tbl', inserted = n,
                                        connection_acquired = True,
                                        connection_closed = True\<rparr>))))))"

text \<open>The table after a sequence of runs of the fetcher, each with its own
  surroundings and responses.\<close>

fun fetch_runs :: "('t::linorder, 'r) lib \<Rightarrow> (env \<times> string option list) list
    \<Rightarrow> 'r row list \<Rightarrow> 'r row list" where
  "fetch_runs lib [] tbl = tbl"
| "fetch_runs lib ((env, responses) # runs) tbl =
     fetch_runs lib runs (table (fetch lib env responses tbl))"

section \<open>The plotter (draw.py)\<close>

text \<open>The query of line 132 compares the \<^verbatim>\<open>datetime\<close> column, a string, with the
  two bounds. The order in which the server returns the rows is not fixed; the
  grouping below is defined on any list of rows.\<close>

definition select_range :: "'r row list \<Rightarrow> string \<Rightarrow> string \<Rightarrow> 'r row list" where
  "select_range tbl start until =
     filter (\<lambda>r. start \<le> datetime r \<and> datetime r \<le> until) tbl"

text \<open>A tuple \<^verbatim>\<open>(dt, corrected_flux)\<close>; the flux is a float, or \<^verbatim>\<open>None\<close> for
  \<^verbatim>\<open>NULL\<close>. The floats are ordered, which leaves NaN out.\<close>

type_synonym ('t, 'r) point = "'t \<times> 'r option"

text \<open>The nested dict of lines 137-145, both levels in insertion order.\<close>

type_synonym ('t, 'r) groups = "(int \<times> (string \<times> ('t, 'r) point list) list) list"

definition add_point :: "int \<Rightarrow> string \<Rightarrow> ('t, 'r) point \<Rightarrow> ('t, 'r) groups \<Rightarrow> ('t, 'r) groups"
  where
  "add_point sat nrj pt g =
     (let inner = (case map_of g sat of None \<Rightarrow> [] | Some m \<Rightarrow> m);
          pts = (case map_of inner nrj of None \<Rightarrow> [] | Some ps \<Rightarrow> ps)
      in AList.update sat (AList.update nrj (pts @ [pt]) inner) g)"

fun group_rows :: "('t, 'r) lib \<Rightarrow> 'r row list \<Rightarrow> ('t, 'r) groups \<Rightarrow> exn + ('t, 'r) groups"
  where
  "group_rows lib [] g = Inr g"
| "group_rows lib (r # rs) g =
     (case read_time lib (datetime r) of
        Inl e \<Rightarrow> Inl e
      | Inr dt \<Rightarrow>
          group_rows lib rs (add_point (satellite r) (energy r) (dt, corrected_flux r) g))"

text \<open>
  \<^verbatim>\<open>list.sort()\<close> on tuples \<^verbatim>\<open>(dt, corrected_flux)\<close>: by \<^verbatim>\<open>dt\<close>, and by the flux
  among equal \<^verbatim>\<open>dt\<close>. Two tuples with equal \<^verbatim>\<open>dt\<close> of which one flux is
  \<^verbatim>\<open>None\<close> and the other a number cannot be ordered: \<^verbatim>\<open>TypeError\<close>.
\<close>

definition sort_points :: "('t::linorder, 'r::linorder) point list
    \<Rightarrow> exn + ('t, 'r) point list" where
  "sort_points ps =
     (if list_ex (\<lambda>p. list_ex (\<lambda>q. fst p = fst q \<and> snd p = None \<and> snd q \<noteq> None) ps) ps
      then Inl TypeError
      else Inr (sort ps))"

text \<open>One call of \<^verbatim>\<open>plot(dts, values, ...)\<close>, labelled by satellite and energy.\<close>

record ('t, 'r) series =
  of_satellite :: int
  of_energy :: string
  dts :: "'t list"
  fluxes :: "'r option list"

text \<open>The inner loop of lines 149-155 over the energies of one satellite.\<close>

fun plot_energies :: "int \<Rightarrow> (string \<times> ('t::linorder, 'r::linorder) point list) list
    \<Rightarrow> exn + ('t, 'r) series list" where
  "plot_energies sat [] = Inr []"
| "plot_energies sat ((nrj, ps) # rest) =
     (case sort_points ps of
        Inl e \<Rightarrow> Inl e
      | Inr sorted_ps \<Rightarrow>
          (case plot_energies sat rest of
             Inl e \<Rightarrow> Inl e
           | Inr others \<Rightarrow>
               Inr (\<lparr>of_satellite = sat, of_energy = nrj, dts = map fst sorted_ps,
                     fluxes = map snd sorted_ps\<rparr> # others)))"

text \<open>The outer loop of line 148 over \<^verbatim>\<open>sorted(data.keys())\<close>.\<close>

fun plot_satellites :: "int list \<Rightarrow> ('t::linorder, 'r::linorder) groups
    \<Rightarrow> exn + ('t, 'r) series list" where
  "plot_satellites [] g = Inr []"
| "plot_satellites (sat # sats) g =
     (case plot_energies sat (case map_of g sat of None \<Rightarrow> [] | Some m \<Rightarrow> m) of
        Inl e \<Rightarrow> Inl e
      | Inr here \<Rightarrow>
          (case plot_satellites sats g of
             Inl e \<Rightarrow> Inl e
           | Inr others \<Rightarrow> Inr (here @ others)))"

text \<open>Lines 137-155: from the fetched rows to the plotted series.\<close>

definition render :: "('t::linorder, 'r::linorder) lib \<Rightarrow> 'r row list
    \<Rightarrow> exn + ('t, 'r) series list" where
  "render lib result =
     (case group_rows lib result [] of
        Inl e \<Rightarrow> Inl e
      | Inr g \<Rightarrow> plot_satellites (sort (map fst g)) g)"

record ('t, 'r) drawing =
  ended :: outcome
  plotted :: "('t, 'r) series list"
  acquired :: bool
  closed :: bool

text \<open>
  The whole script: the two bounds are checked, the connection is opened, the query
  runs, the connection is closed, the rows are plotted. The script does not create the
  table: \<open>None\<close> is a table that does not exist, on which the query of line 132
  raises.
\<close>

definition draw :: "('t::linorder, 'r::linorder) lib \<Rightarrow> env \<Rightarrow> string \<Rightarrow> string
    \<Rightarrow> 'r row list option \<Rightarrow> ('t, 'r) drawing" where
  "draw lib env start until tbl =
     (if strptime lib start = None then
        \<lparr>ended = Exited 1, plotted = [], acquired = False, closed = False\<rparr>
      else if strptime lib until = None then
        \<lparr>ended = Exited 1, plotted = [], acquired = False, closed = False\<rparr>
      else if \<not> password_set env then
        \<lparr>ended = Exited 1, plotted = [], acquired = False, closed = False\<rparr>
      else if \<not> db_reachable env then
        \<lparr>ended = Exited 1, plotted = [], acquired = False, closed = False\<rparr>
      else
        (case tbl of
           None \<Rightarrow> \<lparr>ended = Uncaught DbError, plotted = [], acquired = True, closed = False\<rparr>
         | Some rows \<Rightarrow>
             (case render lib (select_range rows start until) of
                Inl e \<Rightarrow> \<lparr>ended = Uncaught e, plotted = [], acquired = True, closed = True\<rparr>
              | Inr ss \<Rightarrow>
                  \<lparr>ended = Finished, plotted = ss, acquired = True, closed = True\<rparr>)))"

section \<open>The watermark, in the specification's words\<close>

text \<open>The timestamps stored for a satellite and an energy channel: those of the rows of
  the pair whose \<^verbatim>\<open>datetime\<close> reads as a timestamp.\<close>

definition stored_times :: "('t, 'r) lib \<Rightarrow> 'r row list \<Rightarrow> int \<Rightarrow> string \<Rightarrow> 't list" where
  "stored_times lib tbl sat nrj =
     concat (map (\<lambda>r. case strptime lib (datetime r) of None \<Rightarrow> [] | Some t \<Rightarrow> [t])
       (filter (\<lambda>r. satellite r = sat \<and> energy r = nrj) tbl))"





text \<open>An insert stores them in the two columns as they are.\<close>

definition stored_as :: "('t, 'r) lib \<Rightarrow> int \<Rightarrow> string \<Rightarrow> bool" where
  "stored_as lib s n \<longleftrightarrow>
     into_int lib (JNum (of_int s)) = Some s \<and> into_varchar lib (JStr n) = Some n"



section \<open>Invariants of the loops\<close>



section \<open>Sample data\<close>

text \<open>Timestamps written in UTC: year, month, day, hour, minute, second. They compare
  field by field.\<close>

type_synonym utc = "nat \<times> nat \<times> nat \<times> nat \<times> nat \<times> nat"

text \<open>An item as the service sends it.\<close>

definition reading :: "string \<Rightarrow> rat \<Rightarrow> string \<Rightarrow> rat \<Rightarrow> jval" where
  "reading t sat nrj flux =
     JObj [(''time_tag'', JStr t), (''satellite'', JNum sat), (''flux'', JNum flux),
           (''observed_flux'', JNum flux), (''electron_correction'', JNum 0),
           (''energy'', JStr nrj)]"

definition sample_reading :: jval where
  "sample_reading = reading ''2024-05-01T00:00:00Z'' 16 ''0.1-0.8nm'' 1"

text \<open>The text of the array that holds this one item, up to the last letter of its
  last value, and the whole text.\<close>

definition sample_stem :: string where
  "sample_stem =
     ''[{\"time_tag\": \"2024-05-01T00:00:00Z\", \"satellite\": 16, \"flux\": 1, '' @
     ''\"observed_flux\": 1, \"electron_correction\": 0, \"energy\": \"0.1-0.8n''"

definition sample_text :: string where
  "sample_text = sample_stem @ ''m\"}]''"

text \<open>The same item without its \<^verbatim>\<open>time_tag\<close>, from another satellite.\<close>

definition untagged_reading :: jval where
  "untagged_reading =
     JObj [(''satellite'', JNum 18), (''flux'', JNum 2), (''observed_flux'', JNum 2),
           (''electron_correction'', JNum 0), (''energy'', JStr ''0.1-0.8nm'')]"

definition untagged_text :: string where
  "untagged_text =
     ''[{\"satellite\": 18, \"flux\": 2, \"observed_flux\": 2, '' @
     ''\"electron_correction\": 0, \"energy\": \"0.1-0.8nm\"}]''"

text \<open>An item without its \<^verbatim>\<open>observed_flux\<close>.\<close>

definition unobserved_reading :: jval where
  "unobserved_reading =
     JObj [(''time_tag'', JStr ''2024-05-01T00:00:00Z''), (''satellite'', JNum 16),
           (''flux'', JNum 1), (''electron_correction'', JNum 0),
           (''energy'', JStr ''0.1-0.8nm'')]"

definition unobserved_text :: string where
  "unobserved_text =
     ''[{\"time_tag\": \"2024-05-01T00:00:00Z\", \"satellite\": 16, \"flux\": 1, '' @
     ''\"electron_correction\": 0, \"energy\": \"0.1-0.8nm\"}]''"

text \<open>Two items: one of satellite 16 at 23:15 UTC, and one of a satellite numbered
  16.4 whose timestamp is written with an offset, 2024-05-01T00:00:00+0100, which is
  23:00 UTC of the day before.\<close>

definition late_reading :: jval where
  "late_reading = reading ''2024-04-30T23:15:00Z'' 16 ''0.1-0.8nm'' 1"

definition offset_reading :: jval where
  "offset_reading = reading ''2024-05-01T00:00:00+0100'' (164 / 10) ''0.1-0.8nm'' 1"

definition mixed_text :: string where
  "mixed_text =
     ''[{\"time_tag\": \"2024-04-30T23:15:00Z\", \"satellite\": 16, \"flux\": 1, '' @
     ''\"observed_flux\": 1, \"electron_correction\": 0, \"energy\": \"0.1-0.8nm\"}, '' @
     ''{\"time_tag\": \"2024-05-01T00:00:00+0100\", \"satellite\": 16.4, \"flux\": 1, '' @
     ''\"observed_flux\": 1, \"electron_correction\": 0, \"energy\": \"0.1-0.8nm\"}]''"

text \<open>The first of the two alone.\<close>

definition late_text :: string where
  "late_text =
     ''[{\"time_tag\": \"2024-04-30T23:15:00Z\", \"satellite\": 16, \"flux\": 1, '' @
     ''\"observed_flux\": 1, \"electron_correction\": 0, \"energy\": \"0.1-0.8nm\"}]''"

text \<open>
  \<^verbatim>\<open>json.loads\<close> on the texts used below: the arrays above and the empty array; on
  the other texts used below, \<^verbatim>\<open>not json\<close>, \<^verbatim>\<open>]\<close> and \<^verbatim>\<open>m"}]\<close>, it raises.
\<close>

definition sample_loads :: "string \<Rightarrow> jval option" where
  "sample_loads s =
     (if s = sample_text then Some (JArr [sample_reading])
      else if s = untagged_text then Some (JArr [untagged_reading])
      else if s = unobserved_text then Some (JArr [unobserved_reading])
      else if s = mixed_text then Some (JArr [late_reading, offset_reading])
      else if s = late_text then Some (JArr [late_reading])
      else if s = ''[]'' then Some (JArr [])
      else None)"

text \<open>\<^verbatim>\<open>datetime.strptime\<close> with the scripts' format on the strings used below, each
  timestamp in UTC; on \<^verbatim>\<open>yesterday\<close> it raises.\<close>

definition sample_strptime :: "string \<Rightarrow> utc option" where
  "sample_strptime s =
     (if s = ''1900-01-01T00:00:00Z'' then Some (1900, 1, 1, 0, 0, 0)
      else if s = ''2024-04-30T23:15:00Z'' then Some (2024, 4, 30, 23, 15, 0)
      else if s = ''2024-04-30T23:30:00Z'' then Some (2024, 4, 30, 23, 30, 0)
      else if s = ''2024-05-01T00:00:00+0100'' then Some (2024, 4, 30, 23, 0, 0)
      else if s = ''2024-05-01T00:00:00Z'' then Some (2024, 5, 1, 0, 0, 0)
      else if s = ''2024-05-01T00:00:01Z'' then Some (2024, 5, 1, 0, 0, 1)
      else if s = ''2024-05-01T00:00:02Z'' then Some (2024, 5, 1, 0, 0, 2)
      else if s = ''2024-05-01T00:00:03Z'' then Some (2024, 5, 1, 0, 0, 3)
      else None)"

text \<open>
  The driver and the server on the parameters used below. A number is compared with
  the integer column by value and \<^verbatim>\<open>None\<close> matches no row; a str is compared with
  the varchar column by equality. An insert rounds a number to the nearest integer of
  the four-byte range for the integer column, keeps a str for a varchar column, and
  keeps a number or \<^verbatim>\<open>NULL\<close> for a real column (the fluxes used below are exact in
  single precision).
\<close>

fun sample_where_satellite :: "jval \<Rightarrow> (int \<Rightarrow> bool) option" where
  "sample_where_satellite (JNum q) = Some (\<lambda>x. of_int x = q)"
| "sample_where_satellite JNull = Some (\<lambda>x. False)"
| "sample_where_satellite _ = None"

fun sample_where_energy :: "jval \<Rightarrow> (string \<Rightarrow> bool) option" where
  "sample_where_energy (JStr s) = Some (\<lambda>y. y = s)"
| "sample_where_energy JNull = Some (\<lambda>y. False)"
| "sample_where_energy _ = None"

fun sample_into_varchar :: "jval \<Rightarrow> string option" where
  "sample_into_varchar (JStr s) = Some s"
| "sample_into_varchar _ = None"

fun sample_into_int :: "jval \<Rightarrow> int option" where
  "sample_into_int (JNum q) =
     (if - 2147483648 \<le> round q \<and> round q \<le> 2147483647 then Some (round q) else None)"
| "sample_into_int _ = None"

fun sample_into_real :: "jval \<Rightarrow> rat option option" where
  "sample_into_real (JNum q) = Some (Some q)"
| "sample_into_real JNull = Some None"
| "sample_into_real _ = None"

definition sample_lib :: "(utc, rat) lib" where
  "sample_lib =
     \<lparr>loads = sample_loads, strptime = sample_strptime,
      where_satellite = sample_where_satellite, where_energy = sample_where_energy,
      into_varchar = sample_into_varchar, into_int = sample_into_int,
      into_real = sample_into_real\<rparr>"

definition all_well :: env where
  "all_well = \<lparr>password_set = True, db_reachable = True, lock_free = True\<rparr>"

definition lock_held :: env where
  "lock_held = \<lparr>password_set = True, db_reachable = True, lock_free = False\<rparr>"

text \<open>Rows of satellite 16.\<close>

definition stored :: "string \<Rightarrow> rat row" where
  "stored t =
     \<lparr>datetime = t, satellite = 16, energy = ''0.1-0.8nm'', corrected_flux = Some 1,
      observed_flux = Some 1, electron_correction = Some 0\<rparr>"

section \<open>Payload repair: the four patterns\<close>

lemma endswith_append [simp]: "endswith (p @ pat) pat"
  by (simp add: endswith_def)

lemma endswith_iff: "endswith text pat \<longleftrightarrow> (\<exists>p. text = p @ pat)"
proof
  assume "endswith text pat"
  then have "text = take (length text - length pat) text @ pat"
    by (metis append_take_drop_id endswith_def)
  then show "\<exists>p. text = p @ pat" ..
next
  assume "\<exists>p. text = p @ pat"
  then show "endswith text pat" by auto
qed

lemma endswith_last: "endswith text pat \<Longrightarrow> pat \<noteq> [] \<Longrightarrow> last text = last pat"
  by (auto simp: endswith_iff)

lemma repair_dangling: "repair (p @ '', {\"'') = p @ '']''"
  by (simp add: repair_def)

lemma repair_m_quote: "repair (p @ ''m\"'') = p @ ''m\"}]''"
  by (simp add: repair_def endswith_iff)

lemma repair_brace_comma: "repair (p @ ''\"},'') = p @ ''\"}]''"
  by (simp add: repair_def endswith_iff)

lemma repair_brace: "repair (p @ ''\"}'') = p @ ''\"}]''"
  by (simp add: repair_def endswith_iff)

lemma repair_other:
  assumes "\<not> endswith text '', {\"''" "\<not> endswith text ''m\"''"
    "\<not> endswith text ''\"},''" "\<not> endswith text ''\"}''"
  shows "repair text = text"
  using assms by (simp add: repair_def)

lemma repair_changes:
  assumes "endswith text '', {\"'' \<or> endswith text ''m\"''
    \<or> endswith text ''\"},'' \<or> endswith text ''\"}''"
  shows "repair text \<noteq> text"
proof -
  consider p where "text = p @ '', {\"''" | p where "text = p @ ''m\"''"
    | p where "text = p @ ''\"},''" | p where "text = p @ ''\"}''"
    using assms unfolding endswith_iff by blast
  then show ?thesis
  proof cases
    case 1 then show ?thesis by (simp add: repair_dangling)
  next
    case 2 then show ?thesis by (simp add: repair_m_quote)
  next
    case 3 then show ?thesis by (simp add: repair_brace_comma)
  next
    case 4 then show ?thesis by (simp add: repair_brace)
  qed
qed


text \<open>
  C4, as stated, fails: a text with one of the endings need not become JSON. The
  text \<^verbatim>\<open>, {"\<close> becomes \<^verbatim>\<open>]\<close> and the text \<^verbatim>\<open>m"\<close> becomes \<^verbatim>\<open>m"}]\<close>; the parser
  raises on both, and a run whose only response is the first ends with \<^verbatim>\<open>exit(1)\<close>
  at line 154.
\<close>

theorem repaired_text_need_not_parse:
  "repair '', {\"'' = '']'' \<and> loads sample_lib '']'' = None
   \<and> parse sample_lib (Some (repair '', {\"'')) = JNull
   \<and> repair ''m\"'' = ''m\"}]'' \<and> loads sample_lib ''m\"}]'' = None
   \<and> parse sample_lib (Some (repair ''m\"'')) = JNull
   \<and> fetch sample_lib all_well [Some '', {\"''] [] = stop (Exited 1) [] True"
proof -
  have 1: "repair '', {\"'' = '']''" using repair_dangling [of "[]"] by simp
  have 2: "repair ''m\"'' = ''m\"}]''" using repair_m_quote [of "[]"] by simp
  have 3: "loads sample_lib '']'' = None" "loads sample_lib ''m\"}]'' = None"
    by (simp_all add: sample_lib_def sample_loads_def sample_text_def sample_stem_def
        untagged_text_def unobserved_text_def mixed_text_def late_text_def)
  have 4: "fetch sample_lib all_well [Some '', {\"''] [] = stop (Exited 1) [] True"
    by (simp add: fetch_def download_def 1 any_text_def parse_all_def parse_def 3 all_well_def)
  from 1 2 3 4 show ?thesis by (simp add: parse_def)
qed

text \<open>
  C4, amended. The repair step knows four endings and no others. A text that ends in
  \<^verbatim>\<open>, {"\<close> loses these four characters and gets \<^verbatim>\<open>]\<close>; one that ends in \<^verbatim>\<open>m"\<close>
  gets \<^verbatim>\<open>}]\<close>; in one that ends in \<^verbatim>\<open>"},\<close> the comma becomes \<^verbatim>\<open>]\<close>; one that
  ends in \<^verbatim>\<open>"}\<close> gets \<^verbatim>\<open>]\<close>. A text is left as it is exactly when it has none of
  the four endings. Whether the result parses is up to the rest of the text.
\<close>

theorem repair_four_patterns:
  "repair (p @ '', {\"'') = p @ '']''
   \<and> repair (q @ ''m\"'') = q @ ''m\"}]''
   \<and> repair (r @ ''\"},'') = r @ ''\"}]''
   \<and> repair (s @ ''\"}'') = s @ ''\"}]''
   \<and> (repair t = t \<longleftrightarrow>
        \<not> (endswith t '', {\"'' \<or> endswith t ''m\"''
           \<or> endswith t ''\"},'' \<or> endswith t ''\"}''))"
proof -
  have unchanged: "repair t = t \<longleftrightarrow>
      \<not> (endswith t '', {\"'' \<or> endswith t ''m\"''
         \<or> endswith t ''\"},'' \<or> endswith t ''\"}'')"
    using repair_other [of t] repair_changes [of t] by blast
  show ?thesis
    using unchanged
    by (simp only: repair_dangling repair_m_quote repair_brace_comma repair_brace simp_thms)
qed

theorem repair_four_patterns_witness:
  "repair (sample_stem @ ''m\"}, {\"'') = sample_text
   \<and> repair (sample_stem @ ''m\"'') = sample_text
   \<and> repair (sample_stem @ ''m\"},'') = sample_text
   \<and> repair (sample_stem @ ''m\"}'') = sample_text
   \<and> repair ''[]'' = ''[]''
   \<and> \<not> (endswith ''[]'' '', {\"'' \<or> endswith ''[]'' ''m\"''
         \<or> endswith ''[]'' ''\"},'' \<or> endswith ''[]'' ''\"}'')
   \<and> loads sample_lib (repair (sample_stem @ ''m\"}, {\"'')) = Some (JArr [sample_reading])"
proof -
  have none: "\<not> (endswith ''[]'' '', {\"'' \<or> endswith ''[]'' ''m\"''
      \<or> endswith ''[]'' ''\"},'' \<or> endswith ''[]'' ''\"}'')"
    by (simp add: endswith_def)
  note inst = repair_four_patterns [of "sample_stem @ ''m\"}''" "sample_stem"
      "sample_stem @ ''m''" "sample_stem @ ''m''" "''[]''"]
  have unchanged: "repair ''[]'' = ''[]''"
    using inst none by blast
  have texts: "repair ((sample_stem @ ''m\"}'') @ '', {\"'') = sample_text"
    "repair (sample_stem @ ''m\"'') = sample_text"
    "repair ((sample_stem @ ''m'') @ ''\"},'') = sample_text"
    "repair ((sample_stem @ ''m'') @ ''\"}'') = sample_text"
    using inst by (simp_all add: sample_text_def)
  have loads: "loads sample_lib sample_text = Some (JArr [sample_reading])"
    by (simp add: sample_lib_def sample_loads_def)
  show ?thesis
    using unchanged texts loads none by simp
qed

section \<open>Runs that stop before the table is touched\<close>

lemma stop_simps [simp]:
  "outcome (stop out tbl acq) = out" "table (stop out tbl acq) = tbl"
  "inserted (stop out tbl acq) = 0" "connection_acquired (stop out tbl acq) = acq"
  "connection_closed (stop out tbl acq) = False"
  by (simp_all add: stop_def)

lemma any_text_iff: "any_text texts \<longleftrightarrow> (\<exists>s. s \<noteq> [] \<and> Some s \<in> set texts)"
  by (auto simp: any_text_def list_ex_iff)

lemma validate_empty_array: "JArr [] \<in> set js \<Longrightarrow> \<exists>e. validate js ok = Inl e"
proof (induction js arbitrary: ok)
  case Nil
  then show ?case by simp
next
  case (Cons j js)
  show ?case
  proof (cases "j = JArr []")
    case True
    then show ?thesis by simp
  next
    case False
    with Cons.prems have "JArr [] \<in> set js" by simp
    then have "\<exists>e. validate js ok' = Inl e" for ok' by (rule Cons.IH)
    then show ?thesis by (auto split: sum.splits)
  qed
qed

lemma aggregate_absent: "JNull \<in> set js \<Longrightarrow> \<exists>e. aggregate js a = Inl e"
proof (induction js arbitrary: a)
  case Nil
  then show ?case by simp
next
  case (Cons j js)
  show ?case
  proof (cases "j = JNull")
    case True
    then show ?thesis by simp
  next
    case False
    with Cons.prems have "JNull \<in> set js" by simp
    then have "\<exists>e. aggregate js a' = Inl e" for a' by (rule Cons.IH)
    then show ?thesis by (auto split: sum.splits)
  qed
qed

lemma fetch_aggregate_raises:
  assumes "password_set env" "db_reachable env" "any_text (download responses)"
    and "validate (parse_all lib (download responses)) False = Inr True"
    and "aggregate (parse_all lib (download responses)) no_data = Inl e"
  shows "fetch lib env responses tbl = stop (Uncaught e) tbl True"
  using assms by (simp add: fetch_def)

text \<open>
  C10. When a source's response parses to the empty array, line 147 reads its first
  element: the validation loop raises, and the run ends there with an uncaught
  exception, the table untouched, whatever the other sources returned. (The parser
  raises on the empty text, so the source's text is not empty and the check of
  lines 122-130 lets the run pass.)
\<close>

theorem empty_array_aborts:
  assumes "password_set env" and "db_reachable env" and "loads lib [] = None"
    and "Some t \<in> set responses" and "loads lib (repair t) = Some (JArr [])"
  shows "\<exists>e. validate (parse_all lib (download responses)) False = Inl e
           \<and> fetch lib env responses tbl = stop (Uncaught e) tbl True"
proof -
  from assms(4) have mem: "Some (repair t) \<in> set (download responses)"
    by (force simp: download_def)
  from assms(3,5) have "repair t \<noteq> []" by auto
  with mem have texts: "any_text (download responses)"
    unfolding any_text_iff by blast
  from mem assms(5) have "JArr [] \<in> set (parse_all lib (download responses))"
    by (force simp: parse_all_def parse_def)
  then obtain e where e: "validate (parse_all lib (download responses)) False = Inl e"
    using validate_empty_array by blast
  with assms(1,2) texts show ?thesis by (simp add: fetch_def)
qed

theorem empty_array_aborts_witness:
  "password_set all_well \<and> db_reachable all_well \<and> loads sample_lib [] = None
   \<and> Some ''[]'' \<in> set [Some ''[]'', Some sample_text]
   \<and> loads sample_lib (repair ''[]'') = Some (JArr [])
   \<and> loads sample_lib (repair sample_text) = Some (JArr [sample_reading])
   \<and> validate (parse_all sample_lib (download [Some ''[]'', Some sample_text])) False
       = Inl IndexError
   \<and> fetch sample_lib all_well [Some ''[]'', Some sample_text] ([] :: rat row list)
       = stop (Uncaught IndexError) [] True"
proof -
  have rep: "repair ''[]'' = ''[]''" by (simp add: repair_def endswith_def)
  have rep': "repair sample_text = sample_text"
    by (simp add: repair_def endswith_iff sample_text_def)
  have h: "password_set all_well" "db_reachable all_well" "loads sample_lib [] = None"
    "Some ''[]'' \<in> set [Some ''[]'', Some sample_text]"
    "loads sample_lib (repair ''[]'') = Some (JArr [])"
    by (simp_all add: rep all_well_def sample_lib_def sample_loads_def sample_text_def
        untagged_text_def unobserved_text_def mixed_text_def late_text_def)
  have l: "loads sample_lib (repair sample_text) = Some (JArr [sample_reading])"
    by (simp add: rep' sample_lib_def sample_loads_def)
  have v: "validate (parse_all sample_lib (download [Some ''[]'', Some sample_text])) False
       = Inl IndexError"
    using h(5) by (simp add: parse_all_def download_def parse_def)
  from empty_array_aborts [OF h, of "[]"] v h l show ?thesis by simp
qed

text \<open>
  A source whose parse left \<^verbatim>\<open>None\<close> is reported by the validation loop, and then
  iterated by line 160 all the same: no run with such a source reaches its end.
\<close>

lemma absent_source_never_finishes:
  assumes "JNull \<in> set (parse_all lib (download responses))"
  shows "outcome (fetch lib env responses tbl) \<noteq> Finished
    \<and> table (fetch lib env responses tbl) = tbl"
proof -
  obtain e where "aggregate (parse_all lib (download responses)) no_data = Inl e"
    using aggregate_absent [OF assms] by blast
  then show ?thesis
    by (simp add: fetch_def Let_def split: sum.splits)
qed

text \<open>
  C1. Two sources: the first is no JSON, the second is the array with one reading.
  The first parses to \<^verbatim>\<open>None\<close>, the validation loop accepts the run because of the
  second, and the aggregation loop raises \<^verbatim>\<open>TypeError\<close> on the \<^verbatim>\<open>None\<close>: nothing is
  inserted. The second source alone would have had its reading inserted.
\<close>

theorem parse_failure_aborts_run:
  "loads sample_lib ''not json'' = None
   \<and> parse_all sample_lib (download [Some ''not json'', Some sample_text])
       = [JNull, JArr [sample_reading]]
   \<and> validate [JNull, JArr [sample_reading]] False = Inr True
   \<and> aggregate [JNull, JArr [sample_reading]] no_data = Inl TypeError
   \<and> fetch sample_lib all_well [Some ''not json'', Some sample_text] []
       = stop (Uncaught TypeError) [] True
   \<and> table (fetch sample_lib all_well [Some sample_text] [])
       = [\<lparr>datetime = ''2024-05-01T00:00:00Z'', satellite = 16, energy = ''0.1-0.8nm'',
           corrected_flux = Some 1, observed_flux = Some 1, electron_correction = Some 0\<rparr>]"
proof -
  have texts: "download [Some ''not json'', Some sample_text] = [Some ''not json'', Some sample_text]"
    by (simp add: download_def repair_def endswith_iff sample_text_def)
  have jsons: "parse_all sample_lib [Some ''not json'', Some sample_text]
      = [JNull, JArr [sample_reading]]"
    by (simp add: parse_all_def parse_def sample_lib_def sample_loads_def sample_text_def
        sample_stem_def untagged_text_def unobserved_text_def mixed_text_def late_text_def)
  have v: "validate [JNull, JArr [sample_reading]] False = Inr True"
    by (simp add: sample_reading_def reading_def)
  have a: "aggregate [JNull, JArr [sample_reading]] no_data = Inl TypeError"
    by simp
  have f: "fetch sample_lib all_well [Some ''not json'', Some sample_text] ([] :: rat row list)
       = stop (Uncaught TypeError) [] True"
  proof (rule fetch_aggregate_raises)
    show "password_set all_well" "db_reachable all_well" by (simp_all add: all_well_def)
    show "any_text (download [Some ''not json'', Some sample_text])"
      by (simp add: texts any_text_def)
    show "validate (parse_all sample_lib (download [Some ''not json'', Some sample_text]))
        False = Inr True"
      by (simp only: texts jsons v)
    show "aggregate (parse_all sample_lib (download [Some ''not json'', Some sample_text]))
        no_data = Inl TypeError"
      by (simp only: texts jsons a)
  qed
  have one: "table (fetch sample_lib all_well [Some sample_text] [])
       = [\<lparr>datetime = ''2024-05-01T00:00:00Z'', satellite = 16, energy = ''0.1-0.8nm'',
           corrected_flux = Some 1, observed_flux = Some 1, electron_correction = Some 0\<rparr>]"
    by code_simp
  have n: "loads sample_lib ''not json'' = None"
    by (simp add: sample_lib_def sample_loads_def sample_text_def untagged_text_def
        unobserved_text_def mixed_text_def late_text_def)
  show ?thesis
    using texts jsons v a f one n by simp
qed

lemma add_item_data:
  assumes "add_item x a = Inr a'"
  shows "\<exists>d flux. x = JObj d \<and> map_of d ''flux'' = Some flux
    \<and> data a' = data a @ [AList.delete ''flux'' (AList.update ''corrected_flux'' flux d)]"
  using assms
  by (cases x) (auto simp: add_item_def split: sum.splits if_splits option.splits)

lemma add_items_data_mono: "add_items items a = Inr a' \<Longrightarrow> set (data a) \<subseteq> set (data a')"
proof (induction items arbitrary: a)
  case Nil
  then show ?case by simp
next
  case (Cons x items)
  then obtain a1 where a1: "add_item x a = Inr a1" and rest: "add_items items a1 = Inr a'"
    by (auto split: sum.splits)
  from add_item_data [OF a1] have "set (data a) \<subseteq> set (data a1)" by auto
  with Cons.IH [OF rest] show ?case by blast
qed

lemma aggregate_data_mono: "aggregate js a = Inr a' \<Longrightarrow> set (data a) \<subseteq> set (data a')"
proof (induction js arbitrary: a)
  case Nil
  then show ?case by simp
next
  case (Cons j js)
  then obtain items a1 where "iterate j = Inr items" and a1: "add_items items a = Inr a1"
    and rest: "aggregate js a1 = Inr a'"
    by (auto split: sum.splits)
  with Cons.IH [OF rest] add_items_data_mono [OF a1] show ?case by blast
qed

lemma map_of_renamed [simp]:
  "k \<noteq> ''flux'' \<Longrightarrow> k \<noteq> ''corrected_flux'' \<Longrightarrow>
   map_of (AList.delete ''flux'' (AList.update ''corrected_flux'' v d)) k = map_of d k"
  by (simp add: delete_conv' update_conv')

lemma iterate_rejected:
  assumes "subscript0 j = Inr x" and "contains_time_tag x = Inr False"
    and "iterate j = Inr items" and "add_items items a = Inr a'"
  shows "\<exists>d\<in>set (data a'). map_of d ''time_tag'' = None"
proof (cases j)
  case (JArr xs)
  with assms(1) obtain xs' where xs: "xs = x # xs'" by (cases xs) auto
  with JArr assms(3) have items: "items = x # xs'" by simp
  with assms(4) obtain a1 where a1: "add_item x a = Inr a1"
    and rest: "add_items xs' a1 = Inr a'"
    by (auto split: sum.splits)
  from add_item_data [OF a1] obtain d flux where d: "x = JObj d"
    and data: "data a1 = data a @ [AList.delete ''flux'' (AList.update ''corrected_flux'' flux d)]"
    by blast
  from d assms(2) have "map_of d ''time_tag'' = None"
    by (simp add: map_of_eq_None_iff)
  then have "map_of (AList.delete ''flux'' (AList.update ''corrected_flux'' flux d)) ''time_tag''
      = None" by (simp add: delete_conv' update_conv')
  moreover have "AList.delete ''flux'' (AList.update ''corrected_flux'' flux d) \<in> set (data a')"
    using add_items_data_mono [OF rest] data by auto
  ultimately show ?thesis by blast
next
  case (JStr s)
  with assms(1) obtain c cs where "s = c # cs" by (cases s) auto
  with JStr assms(3,4) show ?thesis by (auto simp: add_item_def)
qed (use assms in auto)

lemma aggregate_rejected:
  assumes "j \<in> set js" and "subscript0 j = Inr x" and "contains_time_tag x = Inr False"
    and "aggregate js a = Inr a'"
  shows "\<exists>d\<in>set (data a'). map_of d ''time_tag'' = None"
  using assms(1,4)
proof (induction js arbitrary: a)
  case Nil
  then show ?case by simp
next
  case (Cons j' js)
  from Cons.prems(2) obtain items a1 where it: "iterate j' = Inr items"
    and a1: "add_items items a = Inr a1" and rest: "aggregate js a1 = Inr a'"
    by (auto split: sum.splits)
  show ?case
  proof (cases "j = j'")
    case True
    with iterate_rejected [OF assms(2,3) _ a1] it
    obtain d where "d \<in> set (data a1)" "map_of d ''time_tag'' = None" by blast
    with aggregate_data_mono [OF rest] show ?thesis by blast
  next
    case False
    with Cons.prems(1) have "j \<in> set js" by simp
    from Cons.IH [OF this rest] show ?thesis .
  qed
qed

lemma new_data_untagged:
  "d \<in> set ds \<Longrightarrow> map_of d ''time_tag'' = None \<Longrightarrow> \<exists>e. new_data lib l ds = Inl e"
proof (induction ds)
  case Nil
  then show ?case by simp
next
  case (Cons d' ds)
  show ?case
  proof (cases "d = d'")
    case True
    with Cons.prems(2) have "time_of lib d' = Inl KeyError" by (simp add: time_of_def)
    then show ?thesis by simp
  next
    case False
    with Cons have "\<exists>e. new_data lib l ds = Inl e" by simp
    then show ?thesis by (auto split: sum.splits)
  qed
qed


text \<open>
  A source whose first element has no \<^verbatim>\<open>time_tag\<close> is reported by line 148, and
  its items are appended to \<^verbatim>\<open>data\<close> by line 165 all the same. The first of them
  has no \<^verbatim>\<open>time_tag\<close> for line 191 to read: no run with such a source reaches its
  end.
\<close>

lemma rejected_source_never_finishes:
  assumes "j \<in> set (parse_all lib (download responses))"
    and "subscript0 j = Inr x" and "contains_time_tag x = Inr False"
  shows "outcome (fetch lib env responses tbl) \<noteq> Finished
    \<and> table (fetch lib env responses tbl) = tbl"
proof (cases "aggregate (parse_all lib (download responses)) no_data")
  case (Inl e)
  then show ?thesis by (simp add: fetch_def Let_def split: sum.splits)
next
  case (Inr a)
  have "new_data lib l (data a) \<noteq> Inr nd" for l nd
    using aggregate_rejected [OF assms Inr] new_data_untagged [of _ "data a" lib l]
    by fastforce
  with Inr show ?thesis by (simp add: fetch_def Let_def split: sum.splits)
qed

text \<open>
  C5. Two sources: the first element of the first has no \<^verbatim>\<open>time_tag\<close>, the second
  is the array with one reading. The validation loop accepts the run because of the
  second source; the aggregated \<^verbatim>\<open>data\<close> holds the item of the first source too,
  and the filter of line 191 raises \<^verbatim>\<open>KeyError\<close> on it.
\<close>

theorem untagged_source_is_aggregated:
  "parse_all sample_lib (download [Some untagged_text, Some sample_text])
     = [JArr [untagged_reading], JArr [sample_reading]]
   \<and> subscript0 (JArr [untagged_reading]) = Inr untagged_reading
   \<and> contains_time_tag untagged_reading = Inr False
   \<and> validate [JArr [untagged_reading], JArr [sample_reading]] False = Inr True
   \<and> aggregate [JArr [untagged_reading], JArr [sample_reading]] no_data
       = Inr \<lparr>data =
               [[(''satellite'', JNum 18), (''observed_flux'', JNum 2),
                 (''electron_correction'', JNum 0), (''energy'', JStr ''0.1-0.8nm''),
                 (''corrected_flux'', JNum 2)],
                [(''time_tag'', JStr ''2024-05-01T00:00:00Z''), (''satellite'', JNum 16),
                 (''observed_flux'', JNum 1), (''electron_correction'', JNum 0),
                 (''energy'', JStr ''0.1-0.8nm''), (''corrected_flux'', JNum 1)]],
              satellites = [JNum 16, JNum 18], energies = [JStr ''0.1-0.8nm'']\<rparr>
   \<and> fetch sample_lib all_well [Some untagged_text, Some sample_text] []
       = stop (Uncaught KeyError) [] True"
proof -
  have 1: "parse_all sample_lib (download [Some untagged_text, Some sample_text])
     = [JArr [untagged_reading], JArr [sample_reading]]"
    by code_simp
  have 2: "subscript0 (JArr [untagged_reading]) = Inr untagged_reading"
    by simp
  have 3: "contains_time_tag untagged_reading = Inr False"
    by (simp add: untagged_reading_def)
  have 4: "validate [JArr [untagged_reading], JArr [sample_reading]] False = Inr True"
    by code_simp
  have 5: "aggregate [JArr [untagged_reading], JArr [sample_reading]] no_data
       = Inr \<lparr>data =
               [[(''satellite'', JNum 18), (''observed_flux'', JNum 2),
                 (''electron_correction'', JNum 0), (''energy'', JStr ''0.1-0.8nm''),
                 (''corrected_flux'', JNum 2)],
                [(''time_tag'', JStr ''2024-05-01T00:00:00Z''), (''satellite'', JNum 16),
                 (''observed_flux'', JNum 1), (''electron_correction'', JNum 0),
                 (''energy'', JStr ''0.1-0.8nm''), (''corrected_flux'', JNum 1)]],
              satellites = [JNum 16, JNum 18], energies = [JStr ''0.1-0.8nm'']\<rparr>"
    by code_simp
  have 6: "fetch sample_lib all_well [Some untagged_text, Some sample_text] ([] :: rat row list)
       = stop (Uncaught KeyError) [] True"
    by code_simp
  from 1 2 3 4 5 6 show ?thesis by blast
qed

section \<open>The lock and the connection\<close>

text \<open>
  C6. A run that has come to line 196 (the downloads were usable, the validation
  accepted them, and aggregation, watermark queries and filter raised nothing) and does
  not get the lock ends with \<^verbatim>\<open>exit()\<close>, status 0: it inserts no row, the table
  is as it was, and the statement is tried once. Whatever the run, a held lock means
  that no row is inserted.
\<close>

theorem lock_held_exits_clean:
  assumes "\<not> lock_free env"
    and "password_set env" and "db_reachable env"
    and "any_text (download responses)"
    and "validate (parse_all lib (download responses)) False = Inr True"
    and "aggregate (parse_all lib (download responses)) no_data = Inr a"
    and "latest_data lib tbl (satellites a) (energies a) Map.empty = Inr l"
    and "new_data lib l (data a) = Inr nd"
  shows "fetch lib env responses tbl = stop (Exited 0) tbl True
    \<and> outcome (fetch lib env responses tbl) = Exited 0
    \<and> table (fetch lib env responses tbl) = tbl
    \<and> inserted (fetch lib env responses tbl) = 0"
  using assms by (simp add: fetch_def)

lemma lock_held_inserts_nothing:
  assumes "\<not> lock_free env"
  shows "table (fetch lib env responses tbl) = tbl
    \<and> inserted (fetch lib env responses tbl) = 0
    \<and> outcome (fetch lib env responses tbl) \<noteq> Finished"
  using assms by (auto simp: fetch_def Let_def split: sum.splits prod.splits)

theorem lock_held_exits_clean_witness:
  "\<not> lock_free lock_held \<and> password_set lock_held \<and> db_reachable lock_held
   \<and> any_text (download [Some unobserved_text])
   \<and> validate (parse_all sample_lib (download [Some unobserved_text])) False = Inr True
   \<and> aggregate (parse_all sample_lib (download [Some unobserved_text])) no_data
       = Inr \<lparr>data = [[(''time_tag'', JStr ''2024-05-01T00:00:00Z''), (''satellite'', JNum 16),
                        (''electron_correction'', JNum 0), (''energy'', JStr ''0.1-0.8nm''),
                        (''corrected_flux'', JNum 1)]],
              satellites = [JNum 16], energies = [JStr ''0.1-0.8nm'']\<rparr>
   \<and> latest_data sample_lib ([] :: rat row list) [JNum 16] [JStr ''0.1-0.8nm''] Map.empty
       = Inr [JNum 16 \<mapsto> [JStr ''0.1-0.8nm'' \<mapsto> (1900, 1, 1, 0, 0, 0)]]
   \<and> new_data sample_lib [JNum 16 \<mapsto> [JStr ''0.1-0.8nm'' \<mapsto> (1900, 1, 1, 0, 0, 0)]]
         [[(''time_tag'', JStr ''2024-05-01T00:00:00Z''), (''satellite'', JNum 16),
           (''electron_correction'', JNum 0), (''energy'', JStr ''0.1-0.8nm''),
           (''corrected_flux'', JNum 1)]]
       = Inr [[(''time_tag'', JStr ''2024-05-01T00:00:00Z''), (''satellite'', JNum 16),
               (''electron_correction'', JNum 0), (''energy'', JStr ''0.1-0.8nm''),
               (''corrected_flux'', JNum 1)]]
   \<and> fetch sample_lib lock_held [Some unobserved_text] [] = stop (Exited 0) [] True
   \<and> fetch sample_lib all_well [Some unobserved_text] [] = stop (Uncaught KeyError) [] True"
proof -
  let ?d = "[(''time_tag'', JStr ''2024-05-01T00:00:00Z''), (''satellite'', JNum 16),
             (''electron_correction'', JNum 0), (''energy'', JStr ''0.1-0.8nm''),
             (''corrected_flux'', JNum 1)]"
  let ?a = "\<lparr>data = [?d], satellites = [JNum 16], energies = [JStr ''0.1-0.8nm'']\<rparr>"
  let ?l = "[JNum 16 \<mapsto> [JStr ''0.1-0.8nm'' \<mapsto> (1900, 1, 1, 0, 0, 0 :: nat)]]"
  have env: "\<not> lock_free lock_held" "password_set lock_held" "db_reachable lock_held"
    by (simp_all add: lock_held_def)
  have jsons: "parse_all sample_lib (download [Some unobserved_text]) = [JArr [unobserved_reading]]"
    by code_simp
  have texts: "any_text (download [Some unobserved_text])"
    by code_simp
  have v: "validate (parse_all sample_lib (download [Some unobserved_text])) False = Inr True"
    by code_simp
  have a: "aggregate (parse_all sample_lib (download [Some unobserved_text])) no_data = Inr ?a"
    by code_simp
  have l: "latest_data sample_lib ([] :: rat row list) (satellites ?a) (energies ?a) Map.empty
      = Inr ?l"
    by (simp add: latest_of_def sample_lib_def select_max_datetime_def read_time_def
        sentinel_def sample_strptime_def)
  have nd: "new_data sample_lib ?l (data ?a) = Inr [?d]"
    by (simp add: time_of_def watermark_of_def sample_lib_def read_time_def
        sample_strptime_def)
  from lock_held_exits_clean [OF env texts v a l nd]
  have held: "fetch sample_lib lock_held [Some unobserved_text] [] = stop (Exited 0) [] True"
    by simp
  have free: "fetch sample_lib all_well [Some unobserved_text] ([] :: rat row list)
      = stop (Uncaught KeyError) [] True"
    by code_simp
  from env texts v a l nd held free show ?thesis by simp
qed

text \<open>
  C8, as stated, fails on all three early exits of the fetcher that follow the
  connect: no usable download (\<^verbatim>\<open>exit()\<close>), no valid JSON (\<^verbatim>\<open>exit(1)\<close>) and a
  held lock (\<^verbatim>\<open>exit()\<close>) end the process with the connection opened and
  \<^verbatim>\<open>connection.close()\<close> not called.
\<close>

theorem early_exits_leave_connection_open:
  "fetch sample_lib all_well [None] [] = stop (Exited 0) [] True
   \<and> connection_acquired (fetch sample_lib all_well [None] [])
   \<and> \<not> connection_closed (fetch sample_lib all_well [None] [])
   \<and> fetch sample_lib all_well [Some ''not json''] [] = stop (Exited 1) [] True
   \<and> connection_acquired (fetch sample_lib all_well [Some ''not json''] [])
   \<and> \<not> connection_closed (fetch sample_lib all_well [Some ''not json''] [])
   \<and> fetch sample_lib lock_held [Some sample_text] [] = stop (Exited 0) [] True
   \<and> connection_acquired (fetch sample_lib lock_held [Some sample_text] [])
   \<and> \<not> connection_closed (fetch sample_lib lock_held [Some sample_text] [])"
proof -
  have 1: "fetch sample_lib all_well [None] ([] :: rat row list) = stop (Exited 0) [] True"
    by code_simp
  have 2: "fetch sample_lib all_well [Some ''not json''] ([] :: rat row list)
      = stop (Exited 1) [] True"
    by code_simp
  have 3: "fetch sample_lib lock_held [Some sample_text] ([] :: rat row list)
      = stop (Exited 0) [] True"
    by code_simp
  show ?thesis by (simp add: 1 2 3)
qed

text \<open>
  C8, amended. The fetcher calls \<^verbatim>\<open>connection.close()\<close> exactly on the runs that
  reach the end of the script; it opens a connection exactly when the password is set
  and the connect succeeds. The plotter opens its connection after both bounds have
  parsed, and closes it as soon as its query has returned, before any row is grouped:
  on an existing table every run of the plotter that opened a connection closed it.
\<close>

theorem connection_closed_when_finished:
  "(connection_closed (fetch lib env responses tbl)
      \<longleftrightarrow> outcome (fetch lib env responses tbl) = Finished)
   \<and> (connection_acquired (fetch lib env responses tbl)
      \<longleftrightarrow> password_set env \<and> db_reachable env)
   \<and> (acquired (draw lib env start until rows)
      \<longleftrightarrow> strptime lib start \<noteq> None \<and> strptime lib until \<noteq> None
          \<and> password_set env \<and> db_reachable env)
   \<and> (closed (draw lib env start until rows)
      \<longleftrightarrow> acquired (draw lib env start until rows) \<and> rows \<noteq> None)
   \<and> (acquired (draw lib env start until (Some present))
      \<longrightarrow> closed (draw lib env start until (Some present)))"
proof -
  have 1: "connection_closed (fetch lib env responses tbl)
      \<longleftrightarrow> outcome (fetch lib env responses tbl) = Finished"
    by (simp add: fetch_def Let_def split: sum.splits prod.splits)
  have 2: "connection_acquired (fetch lib env responses tbl)
      \<longleftrightarrow> password_set env \<and> db_reachable env"
    by (simp add: fetch_def Let_def split: sum.splits prod.splits)
  have 3: "acquired (draw lib env start until rows)
      \<longleftrightarrow> strptime lib start \<noteq> None \<and> strptime lib until \<noteq> None
          \<and> password_set env \<and> db_reachable env"
    by (simp add: draw_def split: sum.splits option.splits)
  have 4: "closed (draw lib env start until rows)
      \<longleftrightarrow> acquired (draw lib env start until rows) \<and> rows \<noteq> None"
    by (simp add: draw_def split: sum.splits option.splits)
  have 5: "acquired (draw lib env start until (Some present))
      \<longrightarrow> closed (draw lib env start until (Some present))"
    by (simp add: draw_def split: sum.splits option.splits)
  from 1 2 3 4 5 show ?thesis by blast
qed

theorem connection_closed_when_finished_witness:
  "outcome (fetch sample_lib all_well [Some sample_text] []) = Finished
   \<and> connection_acquired (fetch sample_lib all_well [Some sample_text] [])
   \<and> connection_closed (fetch sample_lib all_well [Some sample_text] [])
   \<and> acquired (draw sample_lib all_well sentinel sentinel (Some []))
   \<and> closed (draw sample_lib all_well sentinel sentinel (Some []))
   \<and> acquired (draw sample_lib all_well sentinel sentinel None)
   \<and> \<not> closed (draw sample_lib all_well sentinel sentinel None)"
proof -
  have fin: "outcome (fetch sample_lib all_well [Some sample_text] ([] :: rat row list))
      = Finished"
    by code_simp
  have env: "password_set all_well \<and> db_reachable all_well"
    by (simp add: all_well_def)
  have bounds: "strptime sample_lib sentinel \<noteq> None"
    by (simp add: sample_lib_def sample_strptime_def sentinel_def)
  note inst = connection_closed_when_finished [of sample_lib all_well "[Some sample_text]" "[]"
      sentinel sentinel]
  from inst [of "Some []" "[]"] inst [of None "[]"] fin env bounds show ?thesis
    by simp
qed

section \<open>The table only grows\<close>

lemma insert_row_extends: "\<exists>new. insert_row r tbl = tbl @ new"
  by (simp add: insert_row_def)

lemma insert_all_extends:
  "insert_all lib ds tbl n = Inr (tbl', n') \<Longrightarrow> \<exists>new. tbl' = tbl @ new"
proof (induction ds arbitrary: tbl n)
  case Nil
  then show ?case by simp
next
  case (Cons d ds)
  then obtain r where "row_of lib d = Inr r"
    and rest: "insert_all lib ds (insert_row r tbl) (n + 1) = Inr (tbl', n')"
    by (auto split: sum.splits)
  from Cons.IH [OF rest] insert_row_extends [of r tbl] show ?case by auto
qed

lemma fetch_extends: "\<exists>added. table (fetch lib env responses tbl) = tbl @ added"
proof (cases "outcome (fetch lib env responses tbl) = Finished")
  case False
  then have "table (fetch lib env responses tbl) = tbl"
    by (simp add: fetch_def Let_def split: sum.splits prod.splits if_splits)
  then show ?thesis by simp
next
  case True
  then obtain nd where "insert_all lib nd tbl 0
      = Inr (table (fetch lib env responses tbl), inserted (fetch lib env responses tbl))"
    by (auto simp: fetch_def Let_def split: sum.splits prod.splits if_splits)
  from insert_all_extends [OF this] show ?thesis .
qed

lemma fetch_runs_extends: "\<exists>added. fetch_runs lib runs tbl = tbl @ added"
proof (induction runs arbitrary: tbl)
  case Nil
  then show ?case by simp
next
  case (Cons run runs)
  obtain env responses where run: "run = (env, responses)" by (cases run)
  obtain a where a: "table (fetch lib env responses tbl) = tbl @ a"
    using fetch_extends by blast
  obtain b where "fetch_runs lib runs (tbl @ a) = (tbl @ a) @ b"
    using Cons.IH by blast
  with a run show ?case by simp
qed

lemma stored_times_append:
  "stored_times lib (tbl @ new) s n = stored_times lib tbl s n @ stored_times lib new s n"
  by (simp add: stored_times_def)

text \<open>
  C7. Whatever the runs and their responses, the table after them is the table before
  them with rows appended: no row is changed or removed. So for every satellite and
  energy channel that has a stored timestamp, the greatest stored timestamp after the
  runs is at least the greatest before.
\<close>

theorem stored_maximum_never_decreases:
  "(\<exists>added. fetch_runs lib runs tbl = tbl @ added)
   \<and> (stored_times lib tbl s n \<noteq> [] \<longrightarrow>
        stored_times lib (fetch_runs lib runs tbl) s n \<noteq> []
        \<and> Max (set (stored_times lib tbl s n))
            \<le> Max (set (stored_times lib (fetch_runs lib runs tbl) s n)))"
proof -
  obtain added where added: "fetch_runs lib runs tbl = tbl @ added"
    using fetch_runs_extends by blast
  have "Max (set (stored_times lib tbl s n))
      \<le> Max (set (stored_times lib (tbl @ added) s n))"
    if "stored_times lib tbl s n \<noteq> []"
    using that by (intro Max_mono) (auto simp: stored_times_append)
  with added show ?thesis by (auto simp: stored_times_append)
qed

theorem stored_maximum_never_decreases_witness:
  "stored_times sample_lib [stored ''2024-04-30T23:30:00Z''] 16 ''0.1-0.8nm''
     = [(2024, 4, 30, 23, 30, 0)]
   \<and> fetch_runs sample_lib [(all_well, [Some mixed_text]), (all_well, [Some mixed_text])]
        [stored ''2024-04-30T23:30:00Z'']
      = [stored ''2024-04-30T23:30:00Z''] @
        [stored ''2024-05-01T00:00:00+0100'', stored ''2024-04-30T23:15:00Z'']
   \<and> stored_times sample_lib
        (fetch_runs sample_lib [(all_well, [Some mixed_text]), (all_well, [Some mixed_text])]
           [stored ''2024-04-30T23:30:00Z'']) 16 ''0.1-0.8nm''
      = [(2024, 4, 30, 23, 30, 0), (2024, 4, 30, 23, 0, 0), (2024, 4, 30, 23, 15, 0)]
   \<and> Max (set (stored_times sample_lib [stored ''2024-04-30T23:30:00Z''] 16 ''0.1-0.8nm''))
      \<le> Max (set (stored_times sample_lib
        (fetch_runs sample_lib [(all_well, [Some mixed_text]), (all_well, [Some mixed_text])]
           [stored ''2024-04-30T23:30:00Z'']) 16 ''0.1-0.8nm''))"
proof -
  let ?runs = "[(all_well, [Some mixed_text]), (all_well, [Some mixed_text])]"
  let ?tbl = "[stored ''2024-04-30T23:30:00Z'']"
  have before: "stored_times sample_lib ?tbl 16 ''0.1-0.8nm'' = [(2024, 4, 30, 23, 30, 0)]"
    by code_simp
  have runs: "fetch_runs sample_lib ?runs ?tbl
      = ?tbl @ [stored ''2024-05-01T00:00:00+0100'', stored ''2024-04-30T23:15:00Z'']"
    by code_simp
  have after: "stored_times sample_lib (fetch_runs sample_lib ?runs ?tbl) 16 ''0.1-0.8nm''
      = [(2024, 4, 30, 23, 30, 0), (2024, 4, 30, 23, 0, 0), (2024, 4, 30, 23, 15, 0)]"
    by code_simp
  from before have ne: "stored_times sample_lib ?tbl 16 ''0.1-0.8nm'' \<noteq> []" by simp
  from stored_maximum_never_decreases [of sample_lib ?runs ?tbl 16 "''0.1-0.8nm''"] ne
  have "Max (set (stored_times sample_lib ?tbl 16 ''0.1-0.8nm''))
      \<le> Max (set (stored_times sample_lib (fetch_runs sample_lib ?runs ?tbl) 16 ''0.1-0.8nm''))"
    by blast
  with before runs after show ?thesis by blast
qed

section \<open>The watermark and the filter\<close>
























end
